theory Spec2Isabelle
  imports Main
begin

section \<open>The revalidation policy of the root route\<close>

text \<open>
  The root route exports \<^verbatim>\<open>shouldRevalidate\<close>, which the router calls on every
  navigation. Its argument object carries the method of the form submission that
  triggered the navigation (\<^verbatim>\<open>undefined\<close> when there was none), the URL navigated
  from, the URL navigated to and the router's own default decision; the function
  destructures the first three only.

  A URL object is represented by the text that \<^verbatim>\<open>toString()\<close> returns for it.
\<close>

datatype url = URL string

fun toString :: "url \<Rightarrow> string" where
  "toString (URL href) = href"

record revalidate_args =
  formMethod :: "string option"
  currentUrl :: url
  nextUrl :: url
  defaultShouldRevalidate :: bool

text \<open>
  JavaScript's truthiness of an optional string, as the test \<^verbatim>\<open>formMethod && ...\<close>
  reads it: \<^verbatim>\<open>undefined\<close> and the empty string are falsy.
\<close>

fun truthy_string :: "string option \<Rightarrow> bool" where
  "truthy_string None = False"
| "truthy_string (Some s) = (s \<noteq> [])"

definition shouldRevalidate :: "'a revalidate_args_scheme \<Rightarrow> bool" where
  "shouldRevalidate a =
     (if truthy_string (formMethod a) \<and> formMethod a \<noteq> Some ''GET'' then True
      else if toString (currentUrl a) = toString (nextUrl a) then True
      else False)"

text \<open>
  The decision as the specification words it, on the four inputs it names: the method
  (absent if none), the two URLs as texts, and the explicit-refresh flag.
\<close>

definition pure_read_method :: "string \<Rightarrow> bool" where
  "pure_read_method m = (m = ''GET'')"

definition three_rule_decision :: "string option \<Rightarrow> string \<Rightarrow> string \<Rightarrow> bool \<Rightarrow> bool" where
  "three_rule_decision method from to explicit_refresh =
     (case method of
        Some m \<Rightarrow> if \<not> pure_read_method m then True else from = to
      | None \<Rightarrow> from = to)"

section \<open>Promises, failures and the order of fetches\<close>

text \<open>
  A promise is represented by the way it eventually settles. What a failing call rejects
  with is an \<open>error\<close>: a \<^verbatim>\<open>TypeError\<close> of the language, the error thrown by
  \<^verbatim>\<open>invariant\<close>, or the reason an external service rejects with.
\<close>

datatype error = TypeError | InvariantError string | Rejection string

datatype 'a promise = Fulfilled 'a | Rejected error

text \<open>
  \<^verbatim>\<open>invariant(condition, message)\<close> of tiny-invariant throws when the condition is
  falsy and returns otherwise; after it the condition is known to hold. It is applied to
  a value that is an object, \<^verbatim>\<open>null\<close> or \<^verbatim>\<open>undefined\<close>, so it hands back the object.
\<close>

definition invariant :: "'a option \<Rightarrow> string \<Rightarrow> error + 'a" where
  "invariant condition message =
     (case condition of None \<Rightarrow> Inl (InvariantError message) | Some v \<Rightarrow> Inr v)"

text \<open>
  The fetches the root loader starts, and what an observer of one loader run sees, in
  order: a fetch being issued, a critical promise settling while the loader waits on
  \<^verbatim>\<open>Promise.all\<close>, and the loader returning its response.
\<close>

datatype fetch = IsLoggedIn | HeaderQuery | FooterQuery | CartGet | LayoutData | OkendoProviderData

datatype observation = Issued fetch | Settled fetch | Returned

fun deferred_fetch :: "fetch \<Rightarrow> bool" where
  "deferred_fetch IsLoggedIn = True"
| "deferred_fetch HeaderQuery = True"
| "deferred_fetch FooterQuery = True"
| "deferred_fetch CartGet = True"
| "deferred_fetch LayoutData = False"
| "deferred_fetch OkendoProviderData = False"

text \<open>
  \<^verbatim>\<open>await Promise.all([p, q])\<close>: fulfilled with both values when both promises fulfil,
  rejected with the reason of the first promise that rejects, without waiting for the
  other one. Which of the two settles first is decided by the network, not by the
  program; \<open>second_first\<close> says that \<open>q\<close> settles before \<open>p\<close>. The observations are
  the settlements the waiting loader has seen when it resumes.
\<close>

fun await_all2 ::
  "bool \<Rightarrow> fetch \<times> 'a promise \<Rightarrow> fetch \<times> 'b promise \<Rightarrow> ('a \<times> 'b) promise \<times> observation list" where
  "await_all2 second_first (f, p) (g, q) =
     (if second_first then
        (case q of
           Rejected e \<Rightarrow> (Rejected e, [Settled g])
         | Fulfilled b \<Rightarrow>
             (case p of
                Rejected e \<Rightarrow> (Rejected e, [Settled g, Settled f])
              | Fulfilled a \<Rightarrow> (Fulfilled (a, b), [Settled g, Settled f])))
      else
        (case p of
           Rejected e \<Rightarrow> (Rejected e, [Settled f])
         | Fulfilled a \<Rightarrow>
             (case q of
                Rejected e \<Rightarrow> (Rejected e, [Settled f, Settled g])
              | Fulfilled b \<Rightarrow> (Fulfilled (a, b), [Settled f, Settled g]))))"

section \<open>The load context\<close>

text \<open>
  The loader receives its collaborators through \<^verbatim>\<open>args.context\<close>: the storefront
  client (its \<^verbatim>\<open>i18n\<close> and its \<^verbatim>\<open>query\<close>), the environment, the cart and the customer
  account. They are external; each call is represented by the promise it returns. A value
  of JavaScript that may be \<^verbatim>\<open>null\<close> or \<^verbatim>\<open>undefined\<close> is an \<open>option\<close>.
\<close>

record i18n_base =
  language :: string
  country :: string

record env =
  PUBLIC_STORE_DOMAIN :: string
  PUBLIC_SHOPIFY_STORE_DOMAIN :: string
  PUBLIC_STORE_CDN_STATIC_URL :: string
  PUBLIC_IMAGE_FORMAT_FOR_PRODUCT_OPTION :: string
  PUBLIC_OKENDO_SUBSCRIBER_ID :: string
  PUBLIC_STOREFRONT_ID :: string
  PUBLIC_CHECKOUT_DOMAIN :: string
  PUBLIC_STOREFRONT_API_TOKEN :: string

datatype gql = LAYOUT_QUERY | HEADER_QUERY | FOOTER_QUERY

datatype gql_value = IntValue int | StringValue string

datatype cache_strategy = CacheLong

record query_options =
  cache :: "cache_strategy option"
  variables :: "(string \<times> gql_value) list"

record 'd storefront =
  i18n :: "i18n_base option"
  query :: "gql \<Rightarrow> query_options \<Rightarrow> 'd option promise"

record ('d, 'c) app_load_context =
  storefront :: "'d storefront"
  context_env :: env
  cart_get :: "'c promise"
  customerAccount_isLoggedIn :: "bool promise"

record ('d, 'c) loader_args =
  request_url :: string
  load_context :: "('d, 'c) app_load_context"

text \<open>
  What the route module imports from other modules and uses in the loader. The review
  provider's \<^verbatim>\<open>getOkendoProviderData\<close>, \<^verbatim>\<open>seoPayload.root\<close> and
  \<^verbatim>\<open>getShopAnalytics\<close> are not part of these sources and are taken as they are called;
  \<open>layout_shop\<close> is the property access \<^verbatim>\<open>layout.shop\<close>; \<^verbatim>\<open>DEFAULT_LOCALE\<close> is the
  constant of \<^verbatim>\<open>lib/utils\<close>.
\<close>

record ('d, 'c, 'sh, 'seo, 'sa, 'o) modules =
  getOkendoProviderData :: "('d, 'c) app_load_context \<Rightarrow> string \<Rightarrow> 'o option promise"
  seoPayload_root :: "'sh \<Rightarrow> string \<Rightarrow> 'seo"
  getShopAnalytics :: "'d storefront \<Rightarrow> string \<Rightarrow> 'sa"
  layout_shop :: "'d \<Rightarrow> 'sh"
  DEFAULT_LOCALE :: i18n_base

section \<open>The root loader\<close>

record consent =
  checkoutDomain :: string
  storefrontAccessToken :: string
  withPrivacyBanner :: bool

record ('d, 'c) deferred_data =
  isLoggedIn :: "bool promise"
  isLoggedInPromise :: "bool promise"
  cart :: "'c promise"
  headerPromise :: "'d option promise"
  footerPromise :: "'d option promise"

record ('d, 'seo, 'sa, 'o) critical_data =
  layout :: 'd
  seo :: 'seo
  shop :: 'sa
  consent :: consent
  selectedLocale :: "i18n_base option"
  okendoProviderData :: "'o option"

text \<open>
  The object the loader hands to \<^verbatim>\<open>defer\<close>: the spread of the deferred data, the
  spread of the critical data (the two have no key in common), and the environment
  values.
\<close>

record ('d, 'c, 'seo, 'sa, 'o) page_data =
  isLoggedIn :: "bool promise"
  isLoggedInPromise :: "bool promise"
  cart :: "'c promise"
  headerPromise :: "'d option promise"
  footerPromise :: "'d option promise"
  layout :: 'd
  seo :: 'seo
  shop :: 'sa
  consent :: consent
  selectedLocale :: "i18n_base option"
  okendoProviderData :: "'o option"
  env :: env
  publicStoreDomain :: string
  publicStoreSubdomain :: string
  publicStoreCdnStaticUrl :: string
  publicImageFormatForProductOption :: string
  publicOkendoSubcriberId :: string

definition header_options :: "i18n_base \<Rightarrow> query_options" where
  "header_options l =
     \<lparr>cache = Some CacheLong,
      variables =
        [(''featuredCollectionsFirst'', IntValue 1),
         (''socialsFirst'', IntValue 10),
         (''headerMenuHandle'', StringValue ''main-menu''),
         (''language'', StringValue (language l)),
         (''country'', StringValue (country l))]\<rparr>"

definition footer_options :: "i18n_base \<Rightarrow> query_options" where
  "footer_options l =
     \<lparr>cache = Some CacheLong,
      variables =
        [(''footerMenuHandle'', StringValue ''footer''),
         (''language'', StringValue (language l)),
         (''country'', StringValue (country l))]\<rparr>"

definition layout_options :: "i18n_base \<Rightarrow> query_options" where
  "layout_options l =
     \<lparr>cache = None,
      variables =
        [(''country'', StringValue (country l)),
         (''language'', StringValue (language l))]\<rparr>"

text \<open>
  \<^verbatim>\<open>loadDeferredData\<close> is an ordinary function: it starts the four fetches and returns
  their promises as they are. Destructuring \<^verbatim>\<open>storefront.i18n\<close> throws a
  \<^verbatim>\<open>TypeError\<close> when it is \<^verbatim>\<open>undefined\<close>; by then \<^verbatim>\<open>customerAccount.isLoggedIn()\<close>
  has been called.
\<close>

definition loadDeferredData ::
  "('d, 'c) loader_args \<Rightarrow> (error + ('d, 'c) deferred_data) \<times> observation list" where
  "loadDeferredData args =
     (let ctx = load_context args;
          isLoggedInPromise' = customerAccount_isLoggedIn ctx
      in case i18n (storefront ctx) of
           None \<Rightarrow> (Inl TypeError, [Issued IsLoggedIn])
         | Some l \<Rightarrow>
             (let headerPromise' = query (storefront ctx) HEADER_QUERY (header_options l);
                  footerPromise' = query (storefront ctx) FOOTER_QUERY (footer_options l)
              in (Inr \<lparr>deferred_data.isLoggedIn = isLoggedInPromise',
                       deferred_data.isLoggedInPromise = isLoggedInPromise',
                       deferred_data.cart = cart_get ctx,
                       deferred_data.headerPromise = headerPromise',
                       deferred_data.footerPromise = footerPromise'\<rparr>,
                  [Issued IsLoggedIn, Issued HeaderQuery, Issued FooterQuery, Issued CartGet])))"

text \<open>
  \<^verbatim>\<open>getLayoutData\<close> is an async function: whatever it throws rejects the promise it
  returns. Reading \<^verbatim>\<open>storefront.i18n.country\<close> throws when \<^verbatim>\<open>i18n\<close> is
  \<^verbatim>\<open>undefined\<close>; a rejected query rejects it; data that is \<^verbatim>\<open>null\<close> or
  \<^verbatim>\<open>undefined\<close> fails the invariant.
\<close>

definition getLayoutData :: "('d, 'c) app_load_context \<Rightarrow> 'd promise" where
  "getLayoutData ctx =
     (case i18n (storefront ctx) of
        None \<Rightarrow> Rejected TypeError
      | Some l \<Rightarrow>
          (case query (storefront ctx) LAYOUT_QUERY (layout_options l) of
             Rejected e \<Rightarrow> Rejected e
           | Fulfilled data \<Rightarrow>
               (case invariant data ''No data returned from Shopify API'' of
                  Inl e \<Rightarrow> Rejected e
                | Inr d \<Rightarrow> Fulfilled d)))"

definition loadCriticalData ::
  "('d, 'c, 'sh, 'seo, 'sa, 'o) modules \<Rightarrow> bool \<Rightarrow> ('d, 'c) loader_args \<Rightarrow>
     ('d, 'seo, 'sa, 'o) critical_data promise \<times> observation list" where
  "loadCriticalData m okendo_first args =
     (let ctx = load_context args;
          layoutPromise = getLayoutData ctx;
          okendoPromise = getOkendoProviderData m ctx (PUBLIC_OKENDO_SUBSCRIBER_ID (context_env ctx));
          (both, settled) =
            await_all2 okendo_first (LayoutData, layoutPromise) (OkendoProviderData, okendoPromise);
          issued = [Issued LayoutData, Issued OkendoProviderData]
      in case both of
           Rejected e \<Rightarrow> (Rejected e, issued @ settled)
         | Fulfilled (layout', okendoProviderData') \<Rightarrow>
             (Fulfilled
                \<lparr>critical_data.layout = layout',
                 critical_data.seo = seoPayload_root m (layout_shop m layout') (request_url args),
                 critical_data.shop =
                   getShopAnalytics m (storefront ctx) (PUBLIC_STOREFRONT_ID (context_env ctx)),
                 critical_data.consent =
                   \<lparr>checkoutDomain = PUBLIC_CHECKOUT_DOMAIN (context_env ctx),
                    storefrontAccessToken = PUBLIC_STOREFRONT_API_TOKEN (context_env ctx),
                    withPrivacyBanner = True\<rparr>,
                 critical_data.selectedLocale = i18n (storefront ctx),
                 critical_data.okendoProviderData = okendoProviderData'\<rparr>,
              issued @ settled))"

text \<open>
  The loader: it calls \<^verbatim>\<open>loadDeferredData\<close> first, then awaits
  \<^verbatim>\<open>loadCriticalData\<close>, then returns the assembled object through \<^verbatim>\<open>defer\<close>. It is
  an async function, so an exception in either step rejects the promise it returns. The
  result is that promise, as it settles, together with what the run was seen to do.
  \<open>okendo_first\<close> says that the review provider's promise settles before the layout's.
\<close>

definition loader ::
  "('d, 'c, 'sh, 'seo, 'sa, 'o) modules \<Rightarrow> bool \<Rightarrow> ('d, 'c) loader_args \<Rightarrow>
     ('d, 'c, 'seo, 'sa, 'o) page_data promise \<times> observation list" where
  "loader m okendo_first args =
     (let env' = context_env (load_context args)
      in case loadDeferredData args of
           (Inl e, started) \<Rightarrow> (Rejected e, started)
         | (Inr deferredData, started) \<Rightarrow>
             (case loadCriticalData m okendo_first args of
                (Rejected e, awaited) \<Rightarrow> (Rejected e, started @ awaited)
              | (Fulfilled criticalData, awaited) \<Rightarrow>
                  (Fulfilled
                     \<lparr>isLoggedIn = deferred_data.isLoggedIn deferredData,
                      isLoggedInPromise = deferred_data.isLoggedInPromise deferredData,
                      cart = deferred_data.cart deferredData,
                      headerPromise = deferred_data.headerPromise deferredData,
                      footerPromise = deferred_data.footerPromise deferredData,
                      layout = critical_data.layout criticalData,
                      seo = critical_data.seo criticalData,
                      shop = critical_data.shop criticalData,
                      consent = critical_data.consent criticalData,
                      selectedLocale = critical_data.selectedLocale criticalData,
                      okendoProviderData = critical_data.okendoProviderData criticalData,
                      env = env',
                      publicStoreDomain = PUBLIC_STORE_DOMAIN env',
                      publicStoreSubdomain = PUBLIC_SHOPIFY_STORE_DOMAIN env',
                      publicStoreCdnStaticUrl = PUBLIC_STORE_CDN_STATIC_URL env',
                      publicImageFormatForProductOption =
                        PUBLIC_IMAGE_FORMAT_FOR_PRODUCT_OPTION env',
                      publicOkendoSubcriberId = PUBLIC_OKENDO_SUBSCRIBER_ID env'\<rparr>,
                   started @ awaited @ [Returned])))"



section \<open>The modal primitive\<close>

text \<open>
  \<^verbatim>\<open>NcModal\<close> keeps one piece of state, \<^verbatim>\<open>isOpen\<close>, which is what the dialog's
  transition is shown with. The caller may pass \<^verbatim>\<open>isOpenProp\<close> (a boolean, or nothing)
  and \<^verbatim>\<open>onCloseModal\<close> (a callback, or nothing). A value of \<open>modal\<close> is the component
  as it stands after a committed render: the props of that render, the state, whether the
  effect scheduled by that render has still to run, and the number of times the callback
  has been called.
\<close>

record modal =
  isOpenProp :: "bool option"
  onCloseModal :: bool
  isOpen :: bool
  effect_pending :: bool
  onCloseModal_calls :: nat

text \<open>\<^verbatim>\<open>!!isOpenProp\<close> and \<^verbatim>\<open>typeof isOpenProp !== 'boolean'\<close>.\<close>

fun not_not :: "bool option \<Rightarrow> bool" where
  "not_not None = False"
| "not_not (Some b) = b"

fun not_boolean :: "bool option \<Rightarrow> bool" where
  "not_boolean None = True"
| "not_boolean (Some b) = False"

text \<open>
  The first render: \<^verbatim>\<open>useState(!!isOpenProp)\<close>. The effect always runs after the first
  render, so it is pending.
\<close>

definition mount :: "bool option \<Rightarrow> bool \<Rightarrow> modal" where
  "mount override callback =
     \<lparr>isOpenProp = override, onCloseModal = callback, isOpen = not_not override,
      effect_pending = True, onCloseModal_calls = 0\<rparr>"

text \<open>
  The effect \<^verbatim>\<open>setIsOpen(!!isOpenProp)\<close>, run if it is pending; it reads the
  \<^verbatim>\<open>isOpenProp\<close> of the render that scheduled it.
\<close>

definition run_effect :: "modal \<Rightarrow> modal" where
  "run_effect s =
     (if effect_pending s then s\<lparr>isOpen := not_not (isOpenProp s), effect_pending := False\<rparr>
      else s)"

text \<open>
  The two handlers, as closures of the last render: they read that render's
  \<^verbatim>\<open>isOpenProp\<close> and \<^verbatim>\<open>onCloseModal\<close>.
\<close>

definition closeModal :: "modal \<Rightarrow> modal" where
  "closeModal s =
     (let s1 = (if not_boolean (isOpenProp s) then s\<lparr>isOpen := False\<rparr> else s)
      in if onCloseModal s1 then s1\<lparr>onCloseModal_calls := onCloseModal_calls s1 + 1\<rparr> else s1)"

definition openModal :: "modal \<Rightarrow> modal" where
  "openModal s = (if not_boolean (isOpenProp s) then s\<lparr>isOpen := True\<rparr> else s)"

text \<open>
  A render with the props the caller passes now. The state is not touched by rendering:
  the render is committed with the \<^verbatim>\<open>isOpen\<close> it finds. The effect depends on
  \<^verbatim>\<open>[isOpenProp]\<close>, so it is scheduled when that value differs from the one of the
  render before, and only then.
\<close>

definition render :: "bool option \<Rightarrow> bool \<Rightarrow> modal \<Rightarrow> modal" where
  "render override callback s =
     s\<lparr>isOpenProp := override, onCloseModal := callback,
       effect_pending := (override \<noteq> isOpenProp s)\<rparr>"

text \<open>
  What can happen to a mounted modal. The effects of a render are run before anything
  else is handled, so every step first runs a pending effect; the state a step leaves is
  the one the component is committed with after it. A history is run from the mount.
\<close>

datatype modal_event = OpenModal | CloseModal | Rerender "bool option" bool

fun modal_step :: "modal \<Rightarrow> modal_event \<Rightarrow> modal" where
  "modal_step s OpenModal = openModal (run_effect s)"
| "modal_step s CloseModal = closeModal (run_effect s)"
| "modal_step s (Rerender override callback) = render override callback (run_effect s)"

definition modal_run :: "bool option \<Rightarrow> bool \<Rightarrow> modal_event list \<Rightarrow> modal" where
  "modal_run override callback events = foldl modal_step (mount override callback) events"

section \<open>What the specification asks of a loader run and of the modal\<close>

text \<open>
  The order the specification describes for one loader run, as a check of the run's
  observations: whenever a deferred fetch is issued, both critical fetches have settled
  already. \<open>settled\<close> collects the fetches seen to settle so far.
\<close>

fun critical_join_first :: "fetch list \<Rightarrow> observation list \<Rightarrow> bool" where
  "critical_join_first settled [] = True"
| "critical_join_first settled (Settled f # rest) = critical_join_first (f # settled) rest"
| "critical_join_first settled (Issued f # rest) =
     ((if deferred_fetch f then LayoutData \<in> set settled \<and> OkendoProviderData \<in> set settled else True)
      \<and> critical_join_first settled rest)"
| "critical_join_first settled (Returned # rest) = critical_join_first settled rest"

text \<open>
  The override the caller passed last in a history that started with \<open>override\<close>; and a
  modal left to itself: \<open>uncontrolled\<close> holds of what can happen to a modal whose caller
  never passes a boolean \<^verbatim>\<open>isOpenProp\<close>, and \<open>internal_toggle\<close> is the visibility that
  the open and close operations alone give.
\<close>

fun override_after :: "bool option \<Rightarrow> modal_event \<Rightarrow> bool option" where
  "override_after override OpenModal = override"
| "override_after override CloseModal = override"
| "override_after override (Rerender override' callback) = override'"

definition last_override :: "bool option \<Rightarrow> modal_event list \<Rightarrow> bool option" where
  "last_override override events = foldl override_after override events"

fun uncontrolled :: "modal_event \<Rightarrow> bool" where
  "uncontrolled OpenModal = True"
| "uncontrolled CloseModal = True"
| "uncontrolled (Rerender override callback) = (override = None)"

fun internal_toggle :: "bool \<Rightarrow> modal_event \<Rightarrow> bool" where
  "internal_toggle visible OpenModal = True"
| "internal_toggle visible CloseModal = False"
| "internal_toggle visible (Rerender override callback) = visible"

section \<open>Concrete requests\<close>

text \<open>
  A storefront whose layout query answers while its header and footer queries, the cart
  and the customer account all reject, with a review provider that answers \<^verbatim>\<open>null\<close>;
  and the same request with a layout query that answers \<^verbatim>\<open>null\<close>.
\<close>

definition sample_env :: env where
  "sample_env =
     \<lparr>PUBLIC_STORE_DOMAIN = ''shop.example'',
      PUBLIC_SHOPIFY_STORE_DOMAIN = ''shop.myshopify.example'',
      PUBLIC_STORE_CDN_STATIC_URL = ''cdn.example'',
      PUBLIC_IMAGE_FORMAT_FOR_PRODUCT_OPTION = ''png'',
      PUBLIC_OKENDO_SUBSCRIBER_ID = ''sub-1'',
      PUBLIC_STOREFRONT_ID = ''7'',
      PUBLIC_CHECKOUT_DOMAIN = ''checkout.example'',
      PUBLIC_STOREFRONT_API_TOKEN = ''token''\<rparr>"

definition en_us :: i18n_base where
  "en_us = \<lparr>language = ''EN'', country = ''US''\<rparr>"

definition sample_query :: "gql \<Rightarrow> query_options \<Rightarrow> string option promise" where
  "sample_query q opts =
     (case q of
        LAYOUT_QUERY \<Rightarrow> Fulfilled (Some ''layout'')
      | HEADER_QUERY \<Rightarrow> Rejected (Rejection ''header menu unavailable'')
      | FOOTER_QUERY \<Rightarrow> Rejected (Rejection ''footer menu unavailable''))"

definition sample_context :: "(string, string) app_load_context" where
  "sample_context =
     \<lparr>storefront = \<lparr>i18n = Some en_us, query = sample_query\<rparr>,
      context_env = sample_env,
      cart_get = Rejected (Rejection ''cart unavailable''),
      customerAccount_isLoggedIn = Rejected (Rejection ''account unavailable'')\<rparr>"

definition sample_args :: "(string, string) loader_args" where
  "sample_args = \<lparr>request_url = ''https://shop.example/'', load_context = sample_context\<rparr>"

definition sample_modules :: "(string, string, string, string, string, string) modules" where
  "sample_modules =
     \<lparr>getOkendoProviderData = (\<lambda>ctx subscriber. Fulfilled None),
      seoPayload_root = (\<lambda>shop url. shop @ url),
      getShopAnalytics = (\<lambda>sf storefrontId. storefrontId),
      layout_shop = (\<lambda>layout. layout),
      DEFAULT_LOCALE = en_us\<rparr>"

definition no_layout_args :: "(string, string) loader_args" where
  "no_layout_args =
     \<lparr>request_url = ''https://shop.example/'',
      load_context =
        sample_context
          \<lparr>storefront := \<lparr>i18n = Some en_us, query = (\<lambda>q opts. Fulfilled None)\<rparr>\<rparr>\<rparr>"

section \<open>Properties of the revalidation policy\<close>

text \<open>
  C3. For every navigation event, \<^verbatim>\<open>shouldRevalidate\<close> returns exactly the result of the
  three-rule first-match decision: true if a triggering method is present and is not the
  pure-read method; otherwise true if the from-URL and the to-URL are textually
  identical; otherwise false. A method, when present, is a method token and so is not the
  empty text (the one string JavaScript's truthiness test would take for an absent one).
\<close>

theorem shouldRevalidate_three_rules:
  assumes "formMethod a \<noteq> Some []"
  shows "shouldRevalidate a =
           three_rule_decision (formMethod a) (toString (currentUrl a))
             (toString (nextUrl a)) (defaultShouldRevalidate a)"
proof (cases "formMethod a")
  case None
  then show ?thesis
    by (simp add: shouldRevalidate_def three_rule_decision_def)
next
  case (Some m)
  with assms have "m \<noteq> []" by simp
  with Some show ?thesis
    by (simp add: shouldRevalidate_def three_rule_decision_def pure_read_method_def)
qed

theorem shouldRevalidate_three_rules_witness:
  "formMethod \<lparr>formMethod = Some ''POST'', currentUrl = URL ''/cart'',
       nextUrl = URL ''/cart'', defaultShouldRevalidate = False\<rparr> \<noteq> Some []
   \<and> shouldRevalidate \<lparr>formMethod = Some ''POST'', currentUrl = URL ''/cart'',
       nextUrl = URL ''/cart'', defaultShouldRevalidate = False\<rparr>
   \<and> three_rule_decision (Some ''POST'') ''/cart'' ''/cart'' False
   \<and> shouldRevalidate \<lparr>formMethod = None, currentUrl = URL ''/products/a'',
       nextUrl = URL ''/products/a'', defaultShouldRevalidate = False\<rparr>
   \<and> \<not> shouldRevalidate \<lparr>formMethod = None, currentUrl = URL ''/products/a'',
       nextUrl = URL ''/products/b'', defaultShouldRevalidate = True\<rparr>
   \<and> \<not> shouldRevalidate \<lparr>formMethod = Some ''GET'', currentUrl = URL ''/products/a'',
       nextUrl = URL ''/products/b'', defaultShouldRevalidate = True\<rparr>"
  using
    shouldRevalidate_three_rules
      [of "\<lparr>formMethod = Some ''POST'', currentUrl = URL ''/cart'',
            nextUrl = URL ''/cart'', defaultShouldRevalidate = False\<rparr>"]
    shouldRevalidate_three_rules
      [of "\<lparr>formMethod = None, currentUrl = URL ''/products/a'',
            nextUrl = URL ''/products/a'', defaultShouldRevalidate = False\<rparr>"]
    shouldRevalidate_three_rules
      [of "\<lparr>formMethod = None, currentUrl = URL ''/products/a'',
            nextUrl = URL ''/products/b'', defaultShouldRevalidate = True\<rparr>"]
    shouldRevalidate_three_rules
      [of "\<lparr>formMethod = Some ''GET'', currentUrl = URL ''/products/a'',
            nextUrl = URL ''/products/b'', defaultShouldRevalidate = True\<rparr>"]
  by (simp add: three_rule_decision_def pure_read_method_def)

text \<open>
  C10. The result of \<^verbatim>\<open>shouldRevalidate\<close> does not depend on the explicit-refresh flag:
  two navigation events with the same method, from-URL and to-URL get the same answer
  whatever their flags are.
\<close>

theorem shouldRevalidate_ignores_refresh_flag:
  "shouldRevalidate
     \<lparr>formMethod = method, currentUrl = from, nextUrl = to, defaultShouldRevalidate = flag\<rparr> =
   shouldRevalidate
     \<lparr>formMethod = method, currentUrl = from, nextUrl = to, defaultShouldRevalidate = flag'\<rparr>"
  by (simp add: shouldRevalidate_def)

section \<open>Facts about the loader\<close>

lemmas sample_defs =
  sample_env_def en_us_def sample_query_def sample_context_def sample_args_def
  sample_modules_def no_layout_args_def

lemmas loader_defs =
  loader_def loadDeferredData_def loadCriticalData_def getLayoutData_def invariant_def Let_def

text \<open>
  The loader fulfils exactly when the storefront has a locale, the layout query answers
  with data and the review provider's call fulfils; the object it returns is then
  determined field by field.
\<close>

lemma loader_Fulfilled_iff:
  "fst (loader m r args) = Fulfilled pd \<longleftrightarrow>
     (\<exists>l d ok.
        i18n (storefront (load_context args)) = Some l \<and>
        query (storefront (load_context args)) LAYOUT_QUERY (layout_options l) = Fulfilled (Some d) \<and>
        getOkendoProviderData m (load_context args)
          (PUBLIC_OKENDO_SUBSCRIBER_ID (context_env (load_context args))) = Fulfilled ok \<and>
        pd =
          \<lparr>isLoggedIn = customerAccount_isLoggedIn (load_context args),
           isLoggedInPromise = customerAccount_isLoggedIn (load_context args),
           cart = cart_get (load_context args),
           headerPromise = query (storefront (load_context args)) HEADER_QUERY (header_options l),
           footerPromise = query (storefront (load_context args)) FOOTER_QUERY (footer_options l),
           layout = d,
           seo = seoPayload_root m (layout_shop m d) (request_url args),
           shop =
             getShopAnalytics m (storefront (load_context args))
               (PUBLIC_STOREFRONT_ID (context_env (load_context args))),
           consent =
             \<lparr>checkoutDomain = PUBLIC_CHECKOUT_DOMAIN (context_env (load_context args)),
              storefrontAccessToken = PUBLIC_STOREFRONT_API_TOKEN (context_env (load_context args)),
              withPrivacyBanner = True\<rparr>,
           selectedLocale = Some l,
           okendoProviderData = ok,
           env = context_env (load_context args),
           publicStoreDomain = PUBLIC_STORE_DOMAIN (context_env (load_context args)),
           publicStoreSubdomain = PUBLIC_SHOPIFY_STORE_DOMAIN (context_env (load_context args)),
           publicStoreCdnStaticUrl = PUBLIC_STORE_CDN_STATIC_URL (context_env (load_context args)),
           publicImageFormatForProductOption =
             PUBLIC_IMAGE_FORMAT_FOR_PRODUCT_OPTION (context_env (load_context args)),
           publicOkendoSubcriberId = PUBLIC_OKENDO_SUBSCRIBER_ID (context_env (load_context args))\<rparr>)"
  by (auto simp: loader_defs split: option.splits promise.splits prod.splits sum.splits if_splits)

text \<open>What one run of the loader is seen to do, in order.\<close>

lemma loader_trace:
  "snd (loader m r args) =
     (case i18n (storefront (load_context args)) of
        None \<Rightarrow> [Issued IsLoggedIn]
      | Some l \<Rightarrow>
          [Issued IsLoggedIn, Issued HeaderQuery, Issued FooterQuery, Issued CartGet,
           Issued LayoutData, Issued OkendoProviderData] @
          snd (await_all2 r (LayoutData, getLayoutData (load_context args))
                 (OkendoProviderData,
                  getOkendoProviderData m (load_context args)
                    (PUBLIC_OKENDO_SUBSCRIBER_ID (context_env (load_context args))))) @
          (case fst (loader m r args) of Fulfilled pd \<Rightarrow> [Returned] | Rejected e \<Rightarrow> []))"
  by (auto simp: loader_def loadDeferredData_def loadCriticalData_def Let_def split: option.splits promise.splits prod.splits sum.splits if_splits)

lemma await_all2_settled:
  "set (snd (await_all2 r (f, p) (g, q))) \<subseteq> {Settled f, Settled g} \<and>
   snd (await_all2 r (f, p) (g, q)) \<noteq> []"
  by (auto split: promise.splits)

lemma loader_Rejected_no_Returned:
  "fst (loader m r args) = Rejected e \<Longrightarrow> Returned \<notin> set (snd (loader m r args))"
  using await_all2_settled [of r LayoutData "getLayoutData (load_context args)" OkendoProviderData
      "getOkendoProviderData m (load_context args)
         (PUBLIC_OKENDO_SUBSCRIBER_ID (context_env (load_context args)))"]
  by (auto simp: loader_trace simp del: await_all2.simps split: option.splits)

text \<open>
  A list that begins with four given elements and is split at some other element has the
  four in front of the split.
\<close>

lemma first_four_before:
  assumes tr: "a # b # c # d # rest = earlier @ ob # later"
    and ob: "ob \<notin> {a, b, c, d}"
  shows "take 4 earlier = [a, b, c, d]"
proof -
  from tr ob obtain e1 where 1: "earlier = a # e1" "b # c # d # rest = e1 @ ob # later"
    by (cases earlier) auto
  from 1(2) ob obtain e2 where 2: "e1 = b # e2" "c # d # rest = e2 @ ob # later"
    by (cases e1) auto
  from 2(2) ob obtain e3 where 3: "e2 = c # e3" "d # rest = e3 @ ob # later"
    by (cases e2) auto
  from 3(2) ob obtain e4 where 4: "e3 = d # e4"
    by (cases e3) auto
  from 1 2 3 4 show ?thesis by simp
qed

section \<open>Deferred fetches\<close>

text \<open>
  C1, as stated, fails. The claim: a rejection of the call behind a deferred fetch is
  converted, where the fetch is issued, into a handle that resolves to an empty value.
  On the request whose four deferred calls all reject, the loader returns its response
  and every one of the four fields is the rejected promise itself.
\<close>

theorem deferred_rejection_not_converted:
  "map_promise isLoggedIn (fst (loader sample_modules False sample_args)) =
     Fulfilled (Rejected (Rejection ''account unavailable'')) \<and>
   map_promise cart (fst (loader sample_modules False sample_args)) =
     Fulfilled (Rejected (Rejection ''cart unavailable'')) \<and>
   map_promise headerPromise (fst (loader sample_modules False sample_args)) =
     Fulfilled (Rejected (Rejection ''header menu unavailable'')) \<and>
   map_promise footerPromise (fst (loader sample_modules False sample_args)) =
     Fulfilled (Rejected (Rejection ''footer menu unavailable''))"
  by (simp add: loader_defs sample_defs)

text \<open>
  C1, as amended. Whatever the calls behind the deferred fetches do, also when they
  reject, the page request does not fail on their account: when the storefront has a
  locale and both critical fetches succeed, the loader returns its response. Each deferred
  field of the response is the promise of its own call, handed on as it is (so it rejects
  with that call's reason), and neither the sibling deferred fields nor the critical
  bundle depend on it.
\<close>

theorem deferred_rejection_isolated:
  assumes "i18n (storefront (load_context args)) = Some l"
    and "query (storefront (load_context args)) LAYOUT_QUERY (layout_options l) = Fulfilled (Some d)"
    and "getOkendoProviderData m (load_context args)
           (PUBLIC_OKENDO_SUBSCRIBER_ID (context_env (load_context args))) = Fulfilled ok"
  shows "\<exists>pd. fst (loader m r args) = Fulfilled pd \<and>
           isLoggedIn pd = customerAccount_isLoggedIn (load_context args) \<and>
           isLoggedInPromise pd = customerAccount_isLoggedIn (load_context args) \<and>
           cart pd = cart_get (load_context args) \<and>
           headerPromise pd = query (storefront (load_context args)) HEADER_QUERY (header_options l) \<and>
           footerPromise pd = query (storefront (load_context args)) FOOTER_QUERY (footer_options l) \<and>
           layout pd = d \<and>
           seo pd = seoPayload_root m (layout_shop m d) (request_url args) \<and>
           shop pd =
             getShopAnalytics m (storefront (load_context args))
               (PUBLIC_STOREFRONT_ID (context_env (load_context args))) \<and>
           consent pd =
             \<lparr>checkoutDomain = PUBLIC_CHECKOUT_DOMAIN (context_env (load_context args)),
              storefrontAccessToken = PUBLIC_STOREFRONT_API_TOKEN (context_env (load_context args)),
              withPrivacyBanner = True\<rparr> \<and>
           selectedLocale pd = Some l \<and>
           okendoProviderData pd = ok"
  using assms by (simp add: loader_defs)

theorem deferred_rejection_isolated_witness:
  "i18n (storefront (load_context sample_args)) = Some en_us \<and>
   query (storefront (load_context sample_args)) LAYOUT_QUERY (layout_options en_us) =
     Fulfilled (Some ''layout'') \<and>
   getOkendoProviderData sample_modules (load_context sample_args)
     (PUBLIC_OKENDO_SUBSCRIBER_ID (context_env (load_context sample_args))) = Fulfilled None \<and>
   customerAccount_isLoggedIn (load_context sample_args) = Rejected (Rejection ''account unavailable'') \<and>
   (\<exists>pd. fst (loader sample_modules False sample_args) = Fulfilled pd \<and>
      isLoggedIn pd = Rejected (Rejection ''account unavailable'') \<and>
      layout pd = ''layout'' \<and> okendoProviderData pd = None)"
proof -
  have a: "i18n (storefront (load_context sample_args)) = Some en_us"
    by (simp add: sample_args_def sample_context_def)
  have b: "query (storefront (load_context sample_args)) LAYOUT_QUERY (layout_options en_us) =
      Fulfilled (Some ''layout'')"
    by (simp add: sample_args_def sample_context_def sample_query_def)
  have c: "getOkendoProviderData sample_modules (load_context sample_args)
      (PUBLIC_OKENDO_SUBSCRIBER_ID (context_env (load_context sample_args))) = Fulfilled None"
    by (simp add: sample_modules_def)
  have d: "customerAccount_isLoggedIn (load_context sample_args) =
      Rejected (Rejection ''account unavailable'')"
    by (simp add: sample_args_def sample_context_def)
  from deferred_rejection_isolated [OF a b c, of False] a b c d show ?thesis
    by auto
qed

section \<open>Critical fetches\<close>

text \<open>
  C2. If any critical fetch rejects or yields no usable data, the loader is to fail for the
  whole request and return no page data. The review provider's fetch is critical. At the
  request where it fulfils with \<^verbatim>\<open>null\<close> the code does otherwise: the loader returns
  its response, with \<^verbatim>\<open>null\<close> in the field. (The layout data, the other critical
  fetch, is asserted to be present; the review provider's data is never inspected.)
\<close>

theorem okendo_null_not_fatal:
  "getOkendoProviderData sample_modules (load_context sample_args)
     (PUBLIC_OKENDO_SUBSCRIBER_ID (context_env (load_context sample_args))) = Fulfilled None \<and>
   map_promise okendoProviderData (fst (loader sample_modules False sample_args)) = Fulfilled None"
  by (simp add: loader_defs sample_defs)

section \<open>The order of fetches\<close>

text \<open>
  C4, as stated, fails. The claim: no deferred fetch is issued before all critical fetches
  have completed. In the run on the sample request the four deferred fetches are the
  first things issued, before any critical fetch has been issued, let alone settled.
\<close>

theorem deferred_issued_before_join:
  "snd (loader sample_modules False sample_args) =
     [Issued IsLoggedIn, Issued HeaderQuery, Issued FooterQuery, Issued CartGet,
      Issued LayoutData, Issued OkendoProviderData,
      Settled LayoutData, Settled OkendoProviderData, Returned] \<and>
   \<not> critical_join_first [] (snd (loader sample_modules False sample_args))"
  by (simp add: loader_defs sample_defs)

text \<open>
  C4, as amended. In every run of the loader the order is the reverse: all four deferred
  fetches are issued before any critical fetch is issued, so the issuing of the deferred
  fetches precedes the critical join. Whatever a run shows that is not the issuing of a
  deferred fetch (a critical fetch being issued, a critical fetch settling, the return of
  the response) has the four deferred fetches issued in front of it.
\<close>

theorem deferred_issued_before_critical:
  assumes "snd (loader m r args) = earlier @ ob # later"
    and "ob \<notin> {Issued IsLoggedIn, Issued HeaderQuery, Issued FooterQuery, Issued CartGet}"
  shows "take 4 earlier =
           [Issued IsLoggedIn, Issued HeaderQuery, Issued FooterQuery, Issued CartGet]"
proof (cases "i18n (storefront (load_context args))")
  case None
  with assms(1) have "[Issued IsLoggedIn] = earlier @ ob # later"
    by (simp add: loader_trace)
  then have "ob = Issued IsLoggedIn"
    by (cases earlier) auto
  with assms(2) show ?thesis by simp
next
  case (Some l)
  with assms(1) obtain rest where
    "Issued IsLoggedIn # Issued HeaderQuery # Issued FooterQuery # Issued CartGet # rest =
       earlier @ ob # later"
    by (simp add: loader_trace del: await_all2.simps)
  then show ?thesis using assms(2) by (rule first_four_before)
qed

theorem deferred_issued_before_critical_witness:
  "snd (loader sample_modules True sample_args) =
     [Issued IsLoggedIn, Issued HeaderQuery, Issued FooterQuery, Issued CartGet,
      Issued LayoutData, Issued OkendoProviderData] @
     Settled OkendoProviderData # [Settled LayoutData, Returned] \<and>
   Settled OkendoProviderData \<notin>
     {Issued IsLoggedIn, Issued HeaderQuery, Issued FooterQuery, Issued CartGet} \<and>
   take 4 [Issued IsLoggedIn, Issued HeaderQuery, Issued FooterQuery, Issued CartGet,
           Issued LayoutData, Issued OkendoProviderData] =
     [Issued IsLoggedIn, Issued HeaderQuery, Issued FooterQuery, Issued CartGet]"
proof -
  have t: "snd (loader sample_modules True sample_args) =
     [Issued IsLoggedIn, Issued HeaderQuery, Issued FooterQuery, Issued CartGet,
      Issued LayoutData, Issued OkendoProviderData] @
     Settled OkendoProviderData # [Settled LayoutData, Returned]"
    by (simp add: loader_defs sample_defs)
  have n: "Settled OkendoProviderData \<notin>
     {Issued IsLoggedIn, Issued HeaderQuery, Issued FooterQuery, Issued CartGet}"
    by simp
  from deferred_issued_before_critical [OF t n] t n show ?thesis by blast
qed

section \<open>The locale\<close>



section \<open>Missing layout data\<close>

text \<open>
  C6. If the layout query returns no data, \<^verbatim>\<open>getLayoutData\<close> raises the invariant's
  assertion failure instead of returning, so the loader fails for that request in the way
  it does for any critical fetch that fails: it rejects, with the assertion failure or
  with the reason the review provider's call rejected with, and returns no response. Page
  data has a layout by its type.
\<close>

theorem missing_layout_data_is_fatal:
  assumes "i18n (storefront (load_context args)) = Some l"
    and "query (storefront (load_context args)) LAYOUT_QUERY (layout_options l) = Fulfilled None"
  shows "getLayoutData (load_context args) =
           Rejected (InvariantError ''No data returned from Shopify API'') \<and>
         (\<exists>e. fst (loader m r args) = Rejected e \<and>
              (e = InvariantError ''No data returned from Shopify API'' \<or>
               getOkendoProviderData m (load_context args)
                 (PUBLIC_OKENDO_SUBSCRIBER_ID (context_env (load_context args))) = Rejected e)) \<and>
         Returned \<notin> set (snd (loader m r args))"
proof -
  have g: "getLayoutData (load_context args) =
      Rejected (InvariantError ''No data returned from Shopify API'')"
    using assms by (simp add: getLayoutData_def invariant_def)
  have l: "\<exists>e. fst (loader m r args) = Rejected e \<and>
      (e = InvariantError ''No data returned from Shopify API'' \<or>
       getOkendoProviderData m (load_context args)
         (PUBLIC_OKENDO_SUBSCRIBER_ID (context_env (load_context args))) = Rejected e)"
    using assms(1) g
    by (auto simp: loader_def loadDeferredData_def loadCriticalData_def Let_def
        split: promise.splits)
  then have "Returned \<notin> set (snd (loader m r args))"
    using loader_Rejected_no_Returned by blast
  with g l show ?thesis by blast
qed

theorem missing_layout_data_is_fatal_witness:
  "i18n (storefront (load_context no_layout_args)) = Some en_us \<and>
   query (storefront (load_context no_layout_args)) LAYOUT_QUERY (layout_options en_us) =
     Fulfilled None \<and>
   getLayoutData (load_context no_layout_args) =
     Rejected (InvariantError ''No data returned from Shopify API'') \<and>
   fst (loader sample_modules False no_layout_args) =
     Rejected (InvariantError ''No data returned from Shopify API'')"
proof -
  have i: "i18n (storefront (load_context no_layout_args)) = Some en_us"
    by (simp add: sample_defs)
  have n: "query (storefront (load_context no_layout_args)) LAYOUT_QUERY (layout_options en_us) =
      Fulfilled None"
    by (simp add: sample_defs)
  have ok: "getOkendoProviderData sample_modules (load_context no_layout_args)
      (PUBLIC_OKENDO_SUBSCRIBER_ID (context_env (load_context no_layout_args))) = Fulfilled None"
    by (simp add: sample_defs)
  from missing_layout_data_is_fatal [OF i n, of sample_modules False] ok i n show ?thesis
    by auto
qed

section \<open>The shape of the page data\<close>

text \<open>
  C7. Every page data the loader returns has the layout, \<^verbatim>\<open>seo\<close>, \<^verbatim>\<open>shop\<close>,
  \<^verbatim>\<open>consent\<close>, \<^verbatim>\<open>selectedLocale\<close>, the review provider's bootstrap data
  (\<^verbatim>\<open>okendoProviderData\<close>), the pending handles for the login status, the cart, the
  header (\<^verbatim>\<open>headerPromise\<close>) and the footer (\<^verbatim>\<open>footerPromise\<close>), and the values passed
  through from the environment, the public store domain among them; each field holds what
  the source assigns to it.
\<close>

theorem loader_page_data_fields:
  assumes "fst (loader m r args) = Fulfilled pd"
  shows "\<exists>l. i18n (storefront (load_context args)) = Some l \<and>
     query (storefront (load_context args)) LAYOUT_QUERY (layout_options l) =
       Fulfilled (Some (layout pd)) \<and>
     seo pd = seoPayload_root m (layout_shop m (layout pd)) (request_url args) \<and>
     shop pd =
       getShopAnalytics m (storefront (load_context args))
         (PUBLIC_STOREFRONT_ID (context_env (load_context args))) \<and>
     consent pd =
       \<lparr>checkoutDomain = PUBLIC_CHECKOUT_DOMAIN (context_env (load_context args)),
        storefrontAccessToken = PUBLIC_STOREFRONT_API_TOKEN (context_env (load_context args)),
        withPrivacyBanner = True\<rparr> \<and>
     selectedLocale pd = Some l \<and>
     getOkendoProviderData m (load_context args)
       (PUBLIC_OKENDO_SUBSCRIBER_ID (context_env (load_context args))) =
       Fulfilled (okendoProviderData pd) \<and>
     isLoggedIn pd = customerAccount_isLoggedIn (load_context args) \<and>
     isLoggedInPromise pd = customerAccount_isLoggedIn (load_context args) \<and>
     cart pd = cart_get (load_context args) \<and>
     headerPromise pd = query (storefront (load_context args)) HEADER_QUERY (header_options l) \<and>
     footerPromise pd = query (storefront (load_context args)) FOOTER_QUERY (footer_options l) \<and>
     env pd = context_env (load_context args) \<and>
     publicStoreDomain pd = PUBLIC_STORE_DOMAIN (context_env (load_context args)) \<and>
     publicStoreSubdomain pd = PUBLIC_SHOPIFY_STORE_DOMAIN (context_env (load_context args)) \<and>
     publicStoreCdnStaticUrl pd = PUBLIC_STORE_CDN_STATIC_URL (context_env (load_context args)) \<and>
     publicImageFormatForProductOption pd =
       PUBLIC_IMAGE_FORMAT_FOR_PRODUCT_OPTION (context_env (load_context args)) \<and>
     publicOkendoSubcriberId pd = PUBLIC_OKENDO_SUBSCRIBER_ID (context_env (load_context args))"
  using assms unfolding loader_Fulfilled_iff by auto

theorem loader_page_data_fields_witness:
  "\<exists>pd. fst (loader sample_modules False sample_args) = Fulfilled pd \<and>
      layout pd = ''layout'' \<and> selectedLocale pd = Some en_us \<and>
      okendoProviderData pd = None \<and>
      isLoggedIn pd = Rejected (Rejection ''account unavailable'') \<and>
      cart pd = Rejected (Rejection ''cart unavailable'') \<and>
      headerPromise pd = Rejected (Rejection ''header menu unavailable'') \<and>
      footerPromise pd = Rejected (Rejection ''footer menu unavailable'') \<and>
      publicStoreDomain pd = ''shop.example''"
proof -
  obtain pd where f: "fst (loader sample_modules False sample_args) = Fulfilled pd"
    by (simp add: loader_defs sample_defs)
  from loader_page_data_fields [OF f] f show ?thesis
    by (auto simp: sample_defs)
qed

section \<open>Properties of the modal\<close>

lemma modal_run_snoc:
  "modal_run override callback (events @ [e]) = modal_step (modal_run override callback events) e"
  by (simp add: modal_run_def)

lemma isOpenProp_modal_step:
  "isOpenProp (modal_step s e) = override_after (isOpenProp s) e"
  by (cases e) (simp_all add: openModal_def closeModal_def render_def run_effect_def Let_def)

lemma isOpenProp_modal_run:
  "isOpenProp (modal_run override callback events) = last_override override events"
proof (induction events rule: rev_induct)
  case Nil
  show ?case by (simp add: modal_run_def mount_def last_override_def)
next
  case (snoc e events)
  then show ?case
    by (simp add: modal_run_snoc isOpenProp_modal_step last_override_def)
qed

lemma run_effect_synchronised:
  assumes "effect_pending s \<or> isOpen s = b" and "isOpenProp s = Some b"
  shows "isOpen (run_effect s) = b" and "\<not> effect_pending (run_effect s)"
    and "isOpenProp (run_effect s) = Some b"
  using assms by (auto simp: run_effect_def)

lemma modal_step_synchronised:
  assumes inv: "\<And>b. isOpenProp s = Some b \<Longrightarrow> effect_pending s \<or> isOpen s = b"
    and after: "isOpenProp (modal_step s e) = Some b"
  shows "effect_pending (modal_step s e) \<or> isOpen (modal_step s e) = b"
proof (cases e)
  case OpenModal
  from after have p: "isOpenProp s = Some b"
    unfolding isOpenProp_modal_step OpenModal by simp
  from run_effect_synchronised [OF inv [OF p] p] OpenModal show ?thesis
    by (simp add: openModal_def)
next
  case CloseModal
  from after have p: "isOpenProp s = Some b"
    unfolding isOpenProp_modal_step CloseModal by simp
  from run_effect_synchronised [OF inv [OF p] p] CloseModal show ?thesis
    by (simp add: closeModal_def Let_def)
next
  case (Rerender override callback)
  from after have o: "override = Some b"
    unfolding isOpenProp_modal_step Rerender by simp
  show ?thesis
  proof (cases "isOpenProp s = Some b")
    case True
    from run_effect_synchronised [OF inv [OF True] True] Rerender o show ?thesis
      by (simp add: render_def)
  next
    case False
    then have "isOpenProp (run_effect s) \<noteq> Some b"
      by (simp add: run_effect_def)
    with Rerender o show ?thesis
      by (simp add: render_def)
  qed
qed

lemma modal_run_synchronised:
  "isOpenProp (modal_run override callback events) = Some b \<Longrightarrow>
   effect_pending (modal_run override callback events) \<or>
   isOpen (modal_run override callback events) = b"
proof (induction events arbitrary: b rule: rev_induct)
  case Nil
  then show ?case by (simp add: modal_run_def mount_def)
next
  case (snoc e events)
  from snoc.prems show ?case
    unfolding modal_run_snoc by (rule modal_step_synchronised [rotated]) (rule snoc.IH)
qed

lemma modal_run_uncontrolled:
  "list_all uncontrolled events \<Longrightarrow>
   isOpenProp (modal_run None callback events) = None \<and>
   isOpen (run_effect (modal_run None callback events)) = foldl internal_toggle False events \<and>
   isOpen (modal_run None callback events) = foldl internal_toggle False events"
proof (induction events rule: rev_induct)
  case Nil
  then show ?case by (simp add: modal_run_def mount_def run_effect_def)
next
  case (snoc e events)
  then have ih: "isOpenProp (modal_run None callback events) = None"
      "isOpen (run_effect (modal_run None callback events)) = foldl internal_toggle False events"
    and e: "uncontrolled e"
    by simp_all
  from ih e show ?case
    unfolding modal_run_snoc
    by (cases e)
      (auto simp: openModal_def closeModal_def render_def run_effect_def Let_def)
qed

text \<open>
  C9, as stated, fails. The claim: with a boolean override the visibility always equals
  the override. A modal mounted with the override \<^verbatim>\<open>false\<close> and rendered again with
  \<^verbatim>\<open>true\<close> is committed with the new override and still hidden: the effect that brings
  the state in line has not run yet.
\<close>

theorem stale_render_after_override_change:
  "isOpenProp (modal_run (Some False) False [Rerender (Some True) False]) = Some True \<and>
   \<not> isOpen (modal_run (Some False) False [Rerender (Some True) False])"
  by (simp add: modal_run_def mount_def render_def run_effect_def)

text \<open>
  C9, as amended. When the caller supplies a boolean \<^verbatim>\<open>isOpenProp\<close>, opening and
  closing do not change the visibility; the override the component holds after any
  history of opens, closes and renders is the one passed last, and once the effect
  scheduled by the render has run the visibility equals that override. When no boolean is
  supplied, opening makes the modal visible and closing hides it, and over a history in
  which none is ever supplied the visibility is what the opens and closes alone give.
\<close>

theorem modal_visibility_control:
  "(isOpenProp s = Some b \<longrightarrow>
      isOpen (openModal s) = isOpen s \<and> isOpen (closeModal s) = isOpen s) \<and>
   isOpenProp (modal_run override callback events) = last_override override events \<and>
   (last_override override events = Some b \<longrightarrow>
      isOpen (run_effect (modal_run override callback events)) = b) \<and>
   (isOpenProp s = None \<longrightarrow> isOpen (openModal s) \<and> \<not> isOpen (closeModal s)) \<and>
   (list_all uncontrolled events \<longrightarrow>
      isOpen (modal_run None callback events) = foldl internal_toggle False events)"
proof (intro conjI impI)
  assume "isOpenProp s = Some b"
  then show "isOpen (openModal s) = isOpen s" and "isOpen (closeModal s) = isOpen s"
    by (simp_all add: openModal_def closeModal_def Let_def)
next
  show "isOpenProp (modal_run override callback events) = last_override override events"
    by (rule isOpenProp_modal_run)
next
  assume "last_override override events = Some b"
  then have p: "isOpenProp (modal_run override callback events) = Some b"
    by (simp add: isOpenProp_modal_run)
  from run_effect_synchronised(1) [OF modal_run_synchronised [OF p] p]
  show "isOpen (run_effect (modal_run override callback events)) = b" .
next
  assume "isOpenProp s = None"
  then show "isOpen (openModal s)" and "\<not> isOpen (closeModal s)"
    by (simp_all add: openModal_def closeModal_def Let_def)
next
  assume "list_all uncontrolled events"
  then show "isOpen (modal_run None callback events) = foldl internal_toggle False events"
    using modal_run_uncontrolled by blast
qed

theorem modal_visibility_control_witness:
  "last_override (Some False) [Rerender (Some True) False, CloseModal] = Some True \<and>
   isOpenProp (modal_run (Some False) False [Rerender (Some True) False, CloseModal]) = Some True \<and>
   isOpen (run_effect (modal_run (Some False) False [Rerender (Some True) False, CloseModal])) \<and>
   isOpen (closeModal (modal_run (Some False) False [Rerender (Some True) False, CloseModal])) \<and>
   isOpenProp (modal_run None False [OpenModal]) = None \<and>
   \<not> isOpen (closeModal (modal_run None False [OpenModal])) \<and>
   list_all uncontrolled [OpenModal, Rerender None False] \<and>
   isOpen (modal_run None False [OpenModal, Rerender None False])"
  using
    modal_visibility_control
      [where s = "modal_run (Some False) False [Rerender (Some True) False, CloseModal]"
         and b = True and override = "Some False" and callback = False
         and events = "[Rerender (Some True) False, CloseModal]"]
    modal_visibility_control
      [where s = "modal_run None False [OpenModal]" and b = True and override = None
         and callback = False and events = "[OpenModal, Rerender None False]"]
  by (simp add: modal_run_def mount_def openModal_def closeModal_def render_def run_effect_def
      last_override_def Let_def)

end
